theory Spec2Isabelle
  imports Main
begin

section \<open>Slice nodes of the optimizer tree (nuitka/nodes/SliceNodes.py)\<close>

subsection \<open>Nodes\<close>

text \<open>
  A node is tagged by its kind and owns its named children in the order of the class's
  \<^verbatim>\<open>named_children\<close>. A required child is a node, an optional child (the lower and
  upper bound of the three slice forms) is a \<open>node option\<close>, \<open>None\<close> being Python's
  \<^verbatim>\<open>None\<close>. The selectors carry the names the source reads the children by.
  Every node kind that is defined outside the module is an \<open>OtherNode\<close>: its kind name,
  its children and its source reference.
\<close>

type_synonym source_ref = nat

type_synonym exception_type = string

datatype node =
    ExpressionConstantNoneRef (source_ref: source_ref)
  | ExpressionBuiltinSlice2 (subnode_start: node) (subnode_stop: node) (source_ref: source_ref)
  | ExpressionBuiltinSlice3 (subnode_start: node) (subnode_stop: node) (subnode_step: node)
      (source_ref: source_ref)
  | ExpressionSliceLookup (subnode_expression: node) (getLower: "node option")
      (getUpper: "node option") (source_ref: source_ref)
  | StatementAssignmentSlice (subnode_source: node) (subnode_expression: node)
      (getLower: "node option") (getUpper: "node option") (source_ref: source_ref)
  | StatementDelSlice (subnode_expression: node) (getLower: "node option")
      (getUpper: "node option") (source_ref: source_ref)
  | OtherNode string "node list" (source_ref: source_ref)

datatype error = AssertionError

definition BaseException :: exception_type where
  "BaseException = ''BaseException''"

subsection \<open>Construction\<close>

text \<open>
  \<^verbatim>\<open>python_version\<close> is imported from nuitka.PythonVersions; it is the first
  argument of the constructors that read it.
\<close>

definition StatementAssignmentSlice_init ::
  "int \<Rightarrow> node \<Rightarrow> node option \<Rightarrow> node option \<Rightarrow> node \<Rightarrow> source_ref \<Rightarrow> error + node" where
  "StatementAssignmentSlice_init python_version expression lower upper source sr =
     (if python_version < 300
      then Inr (StatementAssignmentSlice source expression lower upper sr)
      else Inl AssertionError)"

definition StatementDelSlice_init ::
  "int \<Rightarrow> node \<Rightarrow> node option \<Rightarrow> node option \<Rightarrow> source_ref \<Rightarrow> error + node" where
  "StatementDelSlice_init python_version expression lower upper sr =
     Inr (StatementDelSlice expression lower upper sr)"

text \<open>
  Modelled from the spec: \<^verbatim>\<open>convertNoneConstantToNone\<close> of NodeMakingHelpers, which is
  not part of the module. It is the fixed conversion rule of an optional child slot: a
  present literal-none node becomes the absent state, everything else is kept.
\<close>

fun convertNoneConstantToNone :: "node option \<Rightarrow> node option" where
  "convertNoneConstantToNone None = None"
| "convertNoneConstantToNone (Some (ExpressionConstantNoneRef sr)) = None"
| "convertNoneConstantToNone (Some n) = Some n"

text \<open>
  Modelled from the spec: the constructor of the base class, which is not part of the
  module, normalises an optional slot once, at construction, by the checker the class
  registers for it. The class registers the conversion for its \<^verbatim>\<open>lower\<close> and
  \<^verbatim>\<open>upper\<close> slots; the version assertion is the module's own.
\<close>

definition ExpressionSliceLookup_init ::
  "int \<Rightarrow> node \<Rightarrow> node option \<Rightarrow> node option \<Rightarrow> source_ref \<Rightarrow> error + node" where
  "ExpressionSliceLookup_init python_version expression lower upper sr =
     (if python_version < 300
      then Inr (ExpressionSliceLookup expression (convertNoneConstantToNone lower)
                  (convertNoneConstantToNone upper) sr)
      else Inl AssertionError)"

definition makeExpressionBuiltinSlice ::
  "node option \<Rightarrow> node option \<Rightarrow> node option \<Rightarrow> source_ref \<Rightarrow> node" where
  "makeExpressionBuiltinSlice start stop step sr =
     (let start' = (case start of None \<Rightarrow> ExpressionConstantNoneRef sr | Some n \<Rightarrow> n);
          stop' = (case stop of None \<Rightarrow> ExpressionConstantNoneRef sr | Some n \<Rightarrow> n)
      in case step of
           None \<Rightarrow> ExpressionBuiltinSlice2 start' stop' sr
         | Some step' \<Rightarrow> ExpressionBuiltinSlice3 start' stop' step' sr)"

subsection \<open>Exception facts of the builtin slice constructions\<close>

text \<open>
  \<^verbatim>\<open>mayRaiseException\<close> of the two construction kinds asks the children, which may be
  constructions again; the answer of every other node kind is the parameter \<open>ext\<close>.
\<close>

fun mayRaiseException :: "(node \<Rightarrow> exception_type \<Rightarrow> bool) \<Rightarrow> node \<Rightarrow> exception_type \<Rightarrow> bool" where
  "mayRaiseException ext (ExpressionBuiltinSlice3 start stop step sr) exception_type =
     (mayRaiseException ext start exception_type
      \<or> mayRaiseException ext stop exception_type
      \<or> mayRaiseException ext step exception_type)"
| "mayRaiseException ext (ExpressionBuiltinSlice2 start stop sr) exception_type =
     (mayRaiseException ext start exception_type
      \<or> mayRaiseException ext stop exception_type)"
| "mayRaiseException ext n exception_type = ext n exception_type"

definition mayHaveSideEffects :: "(node \<Rightarrow> exception_type \<Rightarrow> bool) \<Rightarrow> node \<Rightarrow> bool" where
  "mayHaveSideEffects ext n = mayRaiseException ext n BaseException"

subsection \<open>The rewrite step and its collaborators\<close>

text \<open>
  A rewrite step runs in a world: the trace collection, which is opaque and mutable, and
  the node the step is invoked on, whose child slots the trace collection may or may not
  update while it refines a child. The outcome of a step is the triple the source
  returns: the resulting node, the change tag and the change description, the last two
  being \<open>None\<close> where Python has \<^verbatim>\<open>None\<close>.
\<close>

record 't world =
  trace_collection :: 't
  self :: node

type_synonym outcome = "node \<times> string option \<times> string option"

text \<open>
  What the module calls and does not define is a field of the record of collaborators:
  \<^item> \<open>onExpression\<close>: \<^verbatim>\<open>trace_collection.onExpression\<close> on a present child, which
    returns the refined child and leaves the world changed;
  \<^item> \<open>willRaiseException\<close>: the exception-fact query of a node;
  \<^item> the two helpers of NodeMakingHelpers that build the replacement, from one
    expression and the replaced node, and from a tuple of expressions;
  \<^item> the three specialization hooks, methods of the subject node, with the subject as
    first argument and the other arguments in the order of the source's keywords;
  \<^item> \<open>computeBuiltinSpec\<close>: the spec-matching contract of the construction kinds, with
    the node and the given values.
\<close>

record 't collab =
  onExpression :: "'t world \<Rightarrow> node \<Rightarrow> node \<times> 't world"
  willRaiseException :: "node \<Rightarrow> exception_type \<Rightarrow> bool"
  makeStatementExpressionOnlyReplacementNode :: "node \<Rightarrow> node \<Rightarrow> node"
  makeStatementOnlyNodesFromExpressions :: "node option list \<Rightarrow> node"
  computeExpressionSetSlice ::
    "node \<Rightarrow> node \<Rightarrow> node option \<Rightarrow> node option \<Rightarrow> node \<Rightarrow> 't world \<Rightarrow> outcome \<times> 't world"
  computeExpressionDelSlice ::
    "node \<Rightarrow> node \<Rightarrow> node option \<Rightarrow> node option \<Rightarrow> 't world \<Rightarrow> outcome \<times> 't world"
  computeExpressionSlice ::
    "node \<Rightarrow> node \<Rightarrow> node option \<Rightarrow> node option \<Rightarrow> 't world \<Rightarrow> outcome \<times> 't world"
  computeBuiltinSpec :: "node \<Rightarrow> node list \<Rightarrow> 't world \<Rightarrow> outcome \<times> 't world"

text \<open>
  Modelled from the spec: \<^verbatim>\<open>onExpression(child, allow_none=True)\<close> returns absence
  when the slot is empty, and refines a present child as without the flag.
\<close>

definition onExpression_allow_none ::
  "'t collab \<Rightarrow> 't world \<Rightarrow> node option \<Rightarrow> node option \<times> 't world" where
  "onExpression_allow_none C w expression =
     (case expression of
        None \<Rightarrow> (None, w)
      | Some e \<Rightarrow> (case onExpression C w e of (new_node, w') \<Rightarrow> (Some new_node, w')))"

text \<open>\<^verbatim>\<open>x is not None and x.willRaiseException(BaseException)\<close> of an optional child.\<close>

definition is_not_None_and_willRaise :: "'t collab \<Rightarrow> node option \<Rightarrow> bool" where
  "is_not_None_and_willRaise C x =
     (case x of None \<Rightarrow> False | Some n \<Rightarrow> willRaiseException C n BaseException)"

definition new_raise :: "string option" where
  "new_raise = Some ''new_raise''"

definition StatementAssignmentSlice_computeStatement ::
  "'t collab \<Rightarrow> 't world \<Rightarrow> outcome \<times> 't world" where
  "StatementAssignmentSlice_computeStatement C w0 =
     (case onExpression C w0 (subnode_source (self w0)) of (source, w1) \<Rightarrow>
      if willRaiseException C source BaseException
      then ((makeStatementExpressionOnlyReplacementNode C source (self w1), new_raise,
             Some ''Slice assignment raises exception in assigned value, removed assignment.''),
            w1)
      else
     (case onExpression C w1 (subnode_expression (self w1)) of (lookup_source, w2) \<Rightarrow>
      if willRaiseException C lookup_source BaseException
      then ((makeStatementOnlyNodesFromExpressions C [Some source, Some lookup_source],
             new_raise,
             Some ''Slice assignment raises exception in sliced value, removed assignment.''),
            w2)
      else
     (case onExpression_allow_none C w2 (getLower (self w2)) of (lower, w3) \<Rightarrow>
      if is_not_None_and_willRaise C lower
      then ((makeStatementOnlyNodesFromExpressions C [Some source, Some lookup_source, lower],
             new_raise,
             Some ''Slice assignment raises exception in lower slice boundary value, removed assignment.''),
            w3)
      else
     (case onExpression_allow_none C w3 (getUpper (self w3)) of (upper, w4) \<Rightarrow>
      if is_not_None_and_willRaise C upper
      then ((makeStatementOnlyNodesFromExpressions C
               [Some source, Some lookup_source, lower, upper],
             new_raise,
             Some ''Slice assignment raises exception in upper slice boundary value, removed assignment.''),
            w4)
      else computeExpressionSetSlice C lookup_source (self w4) lower upper source w4))))"

text \<open>
  The deletion refines the upper bound and drops what the refinement returns: it reads
  the upper bound again from its own slot.
\<close>

definition StatementDelSlice_computeStatement ::
  "'t collab \<Rightarrow> 't world \<Rightarrow> outcome \<times> 't world" where
  "StatementDelSlice_computeStatement C w0 =
     (case onExpression C w0 (subnode_expression (self w0)) of (lookup_source, w1) \<Rightarrow>
      if willRaiseException C lookup_source BaseException
      then ((makeStatementExpressionOnlyReplacementNode C lookup_source (self w1), new_raise,
             Some ''Slice del raises exception in sliced value, removed del''),
            w1)
      else
     (case onExpression_allow_none C w1 (getLower (self w1)) of (lower, w2) \<Rightarrow>
      if is_not_None_and_willRaise C lower
      then ((makeStatementOnlyNodesFromExpressions C [Some lookup_source, lower],
             new_raise,
             Some (CHR 0x0A # ''Slice del raises exception in lower slice boundary value, removed del'')),
            w2)
      else
     (case onExpression_allow_none C w2 (getUpper (self w2)) of (discarded, w3) \<Rightarrow>
      let upper = getUpper (self w3) in
      if is_not_None_and_willRaise C upper
      then ((makeStatementOnlyNodesFromExpressions C [Some lookup_source, lower, upper],
             new_raise,
             Some (CHR 0x0A # ''Slice del raises exception in upper slice boundary value, removed del'')),
            w3)
      else computeExpressionDelSlice C lookup_source (self w3) lower upper w3)))"

definition ExpressionSliceLookup_computeExpression ::
  "'t collab \<Rightarrow> 't world \<Rightarrow> outcome \<times> 't world" where
  "ExpressionSliceLookup_computeExpression C w =
     (let lookup_source = subnode_expression (self w)
      in computeExpressionSlice C lookup_source (self w) (getLower (self w))
           (getUpper (self w)) w)"

definition ExpressionBuiltinSlice3_computeExpression ::
  "'t collab \<Rightarrow> 't world \<Rightarrow> outcome \<times> 't world" where
  "ExpressionBuiltinSlice3_computeExpression C w =
     computeBuiltinSpec C (self w)
       [subnode_start (self w), subnode_stop (self w), subnode_step (self w)] w"

definition ExpressionBuiltinSlice2_computeExpression ::
  "'t collab \<Rightarrow> 't world \<Rightarrow> outcome \<times> 't world" where
  "ExpressionBuiltinSlice2_computeExpression C w =
     computeBuiltinSpec C (self w) [subnode_start (self w), subnode_stop (self w)] w"

subsection \<open>The refinement order, in the words of the specification\<close>

text \<open>
  Refining the children of a node in a fixed order: each slot is read from the world the
  refinement of the slots before it has left, and gives the refined child and the world
  after it.
\<close>

fun refine_in_order ::
  "'t collab \<Rightarrow> 't world \<Rightarrow> ('t world \<Rightarrow> node option) list \<Rightarrow> (node option \<times> 't world) list" where
  "refine_in_order C w [] = []"
| "refine_in_order C w (slot # slots) =
     (case onExpression_allow_none C w (slot w) of
        (child, w') \<Rightarrow> (child, w') # refine_in_order C w' slots)"

text \<open>Assigned value, subject, lower bound, upper bound.\<close>

definition assignment_order :: "('t world \<Rightarrow> node option) list" where
  "assignment_order =
     [\<lambda>w. Some (subnode_source (self w)), \<lambda>w. Some (subnode_expression (self w)),
      \<lambda>w. getLower (self w), \<lambda>w. getUpper (self w)]"

subsection \<open>An instance of the collaborators\<close>

text \<open>
  A trace collection that counts the refinements it has done, strips one
  \<open>PARENTHESES\<close> wrapper from the child it refines and leaves the slots of the node
  alone; a node certainly raises when its kind is \<open>RAISE\<close>; the helpers record their
  arguments; a hook answers with the node it was called for and no change.
\<close>

fun demo_refine :: "node \<Rightarrow> node" where
  "demo_refine (OtherNode kind children sr) =
     (if kind = ''PARENTHESES'' \<and> length children = 1 then hd children
      else OtherNode kind children sr)"
| "demo_refine n = n"

fun demo_willRaise :: "node \<Rightarrow> exception_type \<Rightarrow> bool" where
  "demo_willRaise (OtherNode kind children sr) exception_type = (kind = ''RAISE'')"
| "demo_willRaise n exception_type = False"

definition demo_statement :: "node option \<Rightarrow> node" where
  "demo_statement e =
     (case e of
        None \<Rightarrow> OtherNode ''None'' [] 0
      | Some n \<Rightarrow> OtherNode ''STATEMENT_EXPRESSION_ONLY'' [n] (source_ref n))"

definition demo :: "nat collab" where
  "demo =
     \<lparr> onExpression = (\<lambda>w n. (demo_refine n, w\<lparr>trace_collection := Suc (trace_collection w)\<rparr>)),
       willRaiseException = demo_willRaise,
       makeStatementExpressionOnlyReplacementNode =
         (\<lambda>expression n. OtherNode ''STATEMENT_EXPRESSION_ONLY'' [expression] (source_ref n)),
       makeStatementOnlyNodesFromExpressions =
         (\<lambda>expressions. OtherNode ''STATEMENTS_SEQUENCE'' (map demo_statement expressions) 0),
       computeExpressionSetSlice =
         (\<lambda>subject set_node lower upper value_node w. ((set_node, None, None), w)),
       computeExpressionDelSlice =
         (\<lambda>subject set_node lower upper w. ((set_node, None, None), w)),
       computeExpressionSlice =
         (\<lambda>subject lookup_node lower upper w. ((lookup_node, None, None), w)),
       computeBuiltinSpec = (\<lambda>n given_values w. ((n, None, None), w)) \<rparr>"

text \<open>
  \<^verbatim>\<open>x[(raise):b] = (v)\<close>: the assigned value and the lower bound are in
  parentheses, and the lower bound certainly raises once it is refined.
\<close>

definition name_node :: "nat \<Rightarrow> node" where
  "name_node i = OtherNode ''NAME'' [] i"

definition raise_node :: "nat \<Rightarrow> node" where
  "raise_node i = OtherNode ''RAISE'' [] i"

definition parentheses :: "node \<Rightarrow> node" where
  "parentheses n = OtherNode ''PARENTHESES'' [n] (source_ref n)"

definition assignment_lower_raises :: "nat world" where
  "assignment_lower_raises =
     \<lparr> trace_collection = 0,
       self = StatementAssignmentSlice (parentheses (name_node 1)) (name_node 2)
                (Some (parentheses (raise_node 3))) (Some (name_node 4)) 5 \<rparr>"

text \<open>
  \<^verbatim>\<open>del (raise)[a:b]\<close>, \<^verbatim>\<open>del x[(a):(raise)]\<close>, and an assignment and a deletion
  with no lower bound and an upper bound that certainly raises.
\<close>

definition deletion_subject_raises :: "nat world" where
  "deletion_subject_raises =
     \<lparr> trace_collection = 0,
       self = StatementDelSlice (raise_node 1) (Some (name_node 2)) (Some (name_node 3)) 4 \<rparr>"

definition deletion_upper_raises :: "nat world" where
  "deletion_upper_raises =
     \<lparr> trace_collection = 0,
       self = StatementDelSlice (name_node 1) (Some (parentheses (name_node 2)))
                (Some (raise_node 3)) 4 \<rparr>"

definition assignment_no_lower :: "nat world" where
  "assignment_no_lower =
     \<lparr> trace_collection = 0,
       self = StatementAssignmentSlice (name_node 1) (name_node 2) None
                (Some (raise_node 4)) 5 \<rparr>"

definition deletion_no_lower :: "nat world" where
  "deletion_no_lower =
     \<lparr> trace_collection = 0,
       self = StatementDelSlice (name_node 1) None (Some (raise_node 3)) 4 \<rparr>"

subsection \<open>Repeated invocation\<close>

text \<open>
  The driver invokes the rewrite step of the node's class; the classes of this module
  are the five below, and the step of any other class is not part of it.
\<close>

fun rewrite_step_of :: "node \<Rightarrow> ('t collab \<Rightarrow> 't world \<Rightarrow> outcome \<times> 't world) option" where
  "rewrite_step_of (StatementAssignmentSlice source expression lower upper sr) =
     Some StatementAssignmentSlice_computeStatement"
| "rewrite_step_of (StatementDelSlice expression lower upper sr) =
     Some StatementDelSlice_computeStatement"
| "rewrite_step_of (ExpressionSliceLookup expression lower upper sr) =
     Some ExpressionSliceLookup_computeExpression"
| "rewrite_step_of (ExpressionBuiltinSlice2 start stop sr) =
     Some ExpressionBuiltinSlice2_computeExpression"
| "rewrite_step_of (ExpressionBuiltinSlice3 start stop step sr) =
     Some ExpressionBuiltinSlice3_computeExpression"
| "rewrite_step_of n = None"

text \<open>Invoking a step \<open>n\<close> times in a row, each time in the world the last call left.\<close>

fun invoke_times :: "('w \<Rightarrow> 'r \<times> 'w) \<Rightarrow> nat \<Rightarrow> 'w \<Rightarrow> 'r list \<times> 'w" where
  "invoke_times f 0 w = ([], w)"
| "invoke_times f (Suc n) w =
     (case f w of (r, w') \<Rightarrow>
        (case invoke_times f n w' of (rs, w'') \<Rightarrow> (r # rs, w'')))"

text \<open>
  Modelled from the spec: the outcome "unchanged", which the module itself never builds
  (it comes from a hook or from the spec matcher): the node itself, no change tag and no
  description.
\<close>

definition unchanged :: "node \<Rightarrow> outcome" where
  "unchanged n = (n, None, None)"

text \<open>The children a step refines, in its order, and the collaborator it ends in.\<close>

fun refined_slots :: "node \<Rightarrow> node option list" where
  "refined_slots (StatementAssignmentSlice source expression lower upper sr) =
     [Some source, Some expression, lower, upper]"
| "refined_slots (StatementDelSlice expression lower upper sr) =
     [Some expression, lower, upper]"
| "refined_slots n = []"

fun delegate :: "'t collab \<Rightarrow> node \<Rightarrow> 't world \<Rightarrow> (outcome \<times> 't world) option" where
  "delegate C (StatementAssignmentSlice source expression lower upper sr) w =
     Some (computeExpressionSetSlice C expression
             (StatementAssignmentSlice source expression lower upper sr) lower upper source w)"
| "delegate C (StatementDelSlice expression lower upper sr) w =
     Some (computeExpressionDelSlice C expression
             (StatementDelSlice expression lower upper sr) lower upper w)"
| "delegate C (ExpressionSliceLookup expression lower upper sr) w =
     Some (computeExpressionSlice C expression
             (ExpressionSliceLookup expression lower upper sr) lower upper w)"
| "delegate C (ExpressionBuiltinSlice2 start stop sr) w =
     Some (computeBuiltinSpec C (ExpressionBuiltinSlice2 start stop sr) [start, stop] w)"
| "delegate C (ExpressionBuiltinSlice3 start stop step sr) w =
     Some (computeBuiltinSpec C (ExpressionBuiltinSlice3 start stop step sr)
             [start, stop, step] w)"
| "delegate C n w = None"

text \<open>
  A trace collection that returns every child as it is and changes nothing, with the
  other collaborators of the instance above; and \<^verbatim>\<open>x[a:] = (raise)\<close> and
  \<^verbatim>\<open>x[a:] = v\<close>.
\<close>

definition quiet :: "nat collab" where
  "quiet = demo\<lparr>onExpression := (\<lambda>w n. (n, w))\<rparr>"

definition assignment_value_raises :: "nat world" where
  "assignment_value_raises =
     \<lparr> trace_collection = 0,
       self = StatementAssignmentSlice (raise_node 1) (name_node 2) (Some (name_node 3))
                None 5 \<rparr>"

definition assignment_plain :: "nat world" where
  "assignment_plain =
     \<lparr> trace_collection = 0,
       self = StatementAssignmentSlice (name_node 1) (name_node 2) (Some (name_node 3))
                None 5 \<rparr>"

text \<open>
  A slice-lookup hook that records the lower and upper argument it is called with, a
  lookup node as the constructor builds it from \<^verbatim>\<open>x[None:b]\<close>, and one that holds a
  literal-none node in its lower slot, as a later replacement of the child can leave it.
\<close>

definition demo_argument :: "node option \<Rightarrow> node" where
  "demo_argument e =
     (case e of None \<Rightarrow> OtherNode ''ABSENT'' [] 0 | Some n \<Rightarrow> OtherNode ''PRESENT'' [n] 0)"

definition recording :: "nat collab" where
  "recording =
     demo\<lparr>computeExpressionSlice :=
            (\<lambda>subject lookup_node lower upper w.
               ((OtherNode ''SLICE_ARGUMENTS'' [demo_argument lower, demo_argument upper] 0,
                 None, None), w))\<rparr>"

definition lookup_plain :: "nat world" where
  "lookup_plain =
     \<lparr> trace_collection = 0,
       self = ExpressionSliceLookup (name_node 1) None (Some (name_node 3)) 4 \<rparr>"

definition lookup_literal_none :: "nat world" where
  "lookup_literal_none =
     \<lparr> trace_collection = 0,
       self = ExpressionSliceLookup (name_node 1) (Some (ExpressionConstantNoneRef 2))
                (Some (name_node 3)) 4 \<rparr>"

section \<open>Construction of the nodes\<close>

text \<open>
  C4: the factory gives the 2-argument kind when the step is structurally absent and the
  3-argument kind for every supplied step, an explicit none-literal node included; in
  both cases an absent start or stop has become a constant-none node.
\<close>

theorem C4_factory_kind:
  "makeExpressionBuiltinSlice start stop None sr =
     ExpressionBuiltinSlice2
       (case start of None \<Rightarrow> ExpressionConstantNoneRef sr | Some n \<Rightarrow> n)
       (case stop of None \<Rightarrow> ExpressionConstantNoneRef sr | Some n \<Rightarrow> n) sr
   \<and> makeExpressionBuiltinSlice start stop (Some step) sr =
     ExpressionBuiltinSlice3
       (case start of None \<Rightarrow> ExpressionConstantNoneRef sr | Some n \<Rightarrow> n)
       (case stop of None \<Rightarrow> ExpressionConstantNoneRef sr | Some n \<Rightarrow> n) step sr
   \<and> makeExpressionBuiltinSlice start stop (Some (ExpressionConstantNoneRef sr')) sr =
     ExpressionBuiltinSlice3
       (case start of None \<Rightarrow> ExpressionConstantNoneRef sr | Some n \<Rightarrow> n)
       (case stop of None \<Rightarrow> ExpressionConstantNoneRef sr | Some n \<Rightarrow> n)
       (ExpressionConstantNoneRef sr') sr
   \<and> makeExpressionBuiltinSlice None None None sr =
     ExpressionBuiltinSlice2 (ExpressionConstantNoneRef sr) (ExpressionConstantNoneRef sr) sr"
  by (simp add: makeExpressionBuiltinSlice_def)

text \<open>
  C5: for both construction kinds and every exception category, the node may raise
  exactly when one of its argument children may: start or stop, and for the 3-argument
  kind also step.
\<close>

theorem C5_mayRaise_is_or_of_children:
  "mayRaiseException ext (ExpressionBuiltinSlice2 start stop sr) exception_type =
     (mayRaiseException ext start exception_type \<or> mayRaiseException ext stop exception_type)
   \<and> mayRaiseException ext (ExpressionBuiltinSlice3 start stop step sr) exception_type =
     (mayRaiseException ext start exception_type \<or> mayRaiseException ext stop exception_type
      \<or> mayRaiseException ext step exception_type)
   \<and> mayRaiseException ext (ExpressionBuiltinSlice2 start stop sr) exception_type =
     (\<exists>child \<in> set [start, stop]. mayRaiseException ext child exception_type)
   \<and> mayRaiseException ext (ExpressionBuiltinSlice3 start stop step sr) exception_type =
     (\<exists>child \<in> set [start, stop, step]. mayRaiseException ext child exception_type)"
  by auto

text \<open>
  C9: the constructors of the slice assignment and of the slice lookup fail with an
  assertion error exactly when the version is not below 300, and return the node
  otherwise; the constructor of the slice deletion returns the node at every version.
\<close>

theorem C9_version_assertion:
  "StatementAssignmentSlice_init python_version expression lower upper source sr =
     (if python_version < 300
      then Inr (StatementAssignmentSlice source expression lower upper sr)
      else Inl AssertionError)
   \<and> (\<exists>n. ExpressionSliceLookup_init python_version expression lower upper sr =
        (if python_version < 300 then Inr n else Inl AssertionError))
   \<and> StatementDelSlice_init python_version expression lower upper sr =
        Inr (StatementDelSlice expression lower upper sr)"
  by (simp add: StatementAssignmentSlice_init_def ExpressionSliceLookup_init_def
      StatementDelSlice_init_def)

section \<open>The certain-raise short-circuit\<close>

lemma demo_fields:
  "onExpression demo w n = (demo_refine n, w\<lparr>trace_collection := Suc (trace_collection w)\<rparr>)"
  "willRaiseException demo = demo_willRaise"
  "makeStatementExpressionOnlyReplacementNode demo expression n' =
     OtherNode ''STATEMENT_EXPRESSION_ONLY'' [expression] (source_ref n')"
  "makeStatementOnlyNodesFromExpressions demo expressions =
     OtherNode ''STATEMENTS_SEQUENCE'' (map demo_statement expressions) 0"
  "computeExpressionSetSlice demo subject set_node lower upper value_node w =
     ((set_node, None, None), w)"
  "computeExpressionDelSlice demo subject set_node lower upper w = ((set_node, None, None), w)"
  "computeExpressionSlice demo subject set_node lower upper w = ((set_node, None, None), w)"
  "computeBuiltinSpec demo n given_values w = ((n, None, None), w)"
  by (simp_all add: demo_def)

lemma is_not_None_and_willRaise_Some [simp]:
  "is_not_None_and_willRaise C (Some n) = willRaiseException C n BaseException"
  by (simp add: is_not_None_and_willRaise_def)

lemma is_not_None_and_willRaise_None [simp]: "\<not> is_not_None_and_willRaise C None"
  by (simp add: is_not_None_and_willRaise_def)

lemma onExpression_allow_none_None [simp]: "onExpression_allow_none C w None = (None, w)"
  by (simp add: onExpression_allow_none_def)

lemma onExpression_allow_none_Some:
  "onExpression C w e = (n, w') \<Longrightarrow> onExpression_allow_none C w (Some e) = (Some n, w')"
  by (simp add: onExpression_allow_none_def)

text \<open>
  C1: the slice assignment refines its children in the order assigned value, subject,
  lower bound, upper bound. When position \<open>k\<close> (counted from 0 here) is the first whose
  refined child certainly raises, the step returns, tagged \<open>new_raise\<close>, the replacement
  built from the refined children of the positions up to \<open>k\<close> and no other, in their
  order, the raising child last; the world is the one the refinement of child \<open>k\<close> has
  left, so no later child has been refined. An absent lower bound before a raising upper
  bound keeps its position in the tuple, as \<open>None\<close>.
\<close>

theorem C1_assignment_short_circuit:
  assumes rc: "rc = refine_in_order C w0 assignment_order"
    and k: "k < length rc"
    and raises: "is_not_None_and_willRaise C (fst (rc ! k))"
    and first: "\<forall>j<k. \<not> is_not_None_and_willRaise C (fst (rc ! j))"
  shows "(\<exists>desc. StatementAssignmentSlice_computeStatement C w0 =
           ((if k = 0
             then makeStatementExpressionOnlyReplacementNode C (the (fst (rc ! 0)))
                    (self (snd (rc ! 0)))
             else makeStatementOnlyNodesFromExpressions C (map fst (take (Suc k) rc)),
             new_raise, Some desc),
            snd (rc ! k)))
         \<and> length (map fst (take (Suc k) rc)) = Suc k
         \<and> last (map fst (take (Suc k) rc)) = fst (rc ! k)"
proof -
  obtain s w1 where r1: "onExpression C w0 (subnode_source (self w0)) = (s, w1)"
    by fastforce
  obtain e w2 where r2: "onExpression C w1 (subnode_expression (self w1)) = (e, w2)"
    by fastforce
  obtain lo w3 where r3: "onExpression_allow_none C w2 (getLower (self w2)) = (lo, w3)"
    by fastforce
  obtain up w4 where r4: "onExpression_allow_none C w3 (getUpper (self w3)) = (up, w4)"
    by fastforce
  have rc': "rc = [(Some s, w1), (Some e, w2), (lo, w3), (up, w4)]"
    using r1 r2 r3 r4 by (simp add: rc assignment_order_def onExpression_allow_none_def)
  from k rc' have cases: "k = 0 \<or> k = 1 \<or> k = 2 \<or> k = 3" by auto
  from k have len: "length (map fst (take (Suc k) rc)) = Suc k" by simp
  from k have lst: "last (map fst (take (Suc k) rc)) = fst (rc ! k)"
    by (simp add: take_Suc_conv_app_nth)
  from cases have "\<exists>desc. StatementAssignmentSlice_computeStatement C w0 =
           ((if k = 0
             then makeStatementExpressionOnlyReplacementNode C (the (fst (rc ! 0)))
                    (self (snd (rc ! 0)))
             else makeStatementOnlyNodesFromExpressions C (map fst (take (Suc k) rc)),
             new_raise, Some desc),
            snd (rc ! k))"
  proof (elim disjE)
    assume "k = 0"
    then show ?thesis using raises r1
      by (simp add: rc' StatementAssignmentSlice_computeStatement_def)
  next
    assume k1: "k = 1"
    with first have "\<not> is_not_None_and_willRaise C (fst (rc ! 0))" by simp
    then show ?thesis using raises r1 r2 k1
      by (simp add: rc' StatementAssignmentSlice_computeStatement_def)
  next
    assume k2: "k = 2"
    with first have "\<not> is_not_None_and_willRaise C (fst (rc ! 0))"
      "\<not> is_not_None_and_willRaise C (fst (rc ! 1))" by simp_all
    then show ?thesis using raises r1 r2 r3 k2
      by (simp add: rc' StatementAssignmentSlice_computeStatement_def)
  next
    assume k3: "k = 3"
    with first have "\<not> is_not_None_and_willRaise C (fst (rc ! 0))"
      "\<not> is_not_None_and_willRaise C (fst (rc ! 1))"
      "\<not> is_not_None_and_willRaise C (fst (rc ! 2))" by simp_all
    then show ?thesis using raises r1 r2 r3 r4 k3
      by (simp add: rc' StatementAssignmentSlice_computeStatement_def numeral_3_eq_3
          numeral_2_eq_2)
  qed
  with len lst show ?thesis by blast
qed


theorem C1_assignment_short_circuit_witness:
  "\<exists>desc. StatementAssignmentSlice_computeStatement demo assignment_lower_raises =
     ((OtherNode ''STATEMENTS_SEQUENCE''
         [OtherNode ''STATEMENT_EXPRESSION_ONLY'' [name_node 1] 1,
          OtherNode ''STATEMENT_EXPRESSION_ONLY'' [name_node 2] 2,
          OtherNode ''STATEMENT_EXPRESSION_ONLY'' [raise_node 3] 3] 0,
       Some ''new_raise'', Some desc),
      assignment_lower_raises\<lparr>trace_collection := 3\<rparr>)"
proof -
  let ?W = "assignment_lower_raises"
  let ?rc = "refine_in_order demo ?W assignment_order"
  have rc: "?rc =
      [(Some (name_node 1), ?W\<lparr>trace_collection := 1\<rparr>),
       (Some (name_node 2), ?W\<lparr>trace_collection := 2\<rparr>),
       (Some (raise_node 3), ?W\<lparr>trace_collection := 3\<rparr>),
       (Some (name_node 4), ?W\<lparr>trace_collection := 4\<rparr>)]"
    by (simp add: assignment_order_def assignment_lower_raises_def demo_fields
        onExpression_allow_none_def parentheses_def name_node_def raise_node_def)
  have k: "2 < length ?rc" by (simp add: rc)
  have raises: "is_not_None_and_willRaise demo (fst (?rc ! 2))"
    by (simp add: rc demo_fields raise_node_def)
  have first: "\<forall>j<2. \<not> is_not_None_and_willRaise demo (fst (?rc ! j))"
    by (simp add: rc demo_fields name_node_def less_Suc_eq numeral_2_eq_2)
  from C1_assignment_short_circuit [OF refl k raises first] show ?thesis
    by (simp add: rc demo_fields demo_statement_def new_raise_def name_node_def raise_node_def
        numeral_2_eq_2 numeral_3_eq_3)
qed

text \<open>
  C2: when the refined subject of a slice deletion certainly raises, the replacement is
  built from the subject alone, and neither bound is refined or kept. When the subject
  does not, the lower bound is absent or does not, and the upper bound the node holds
  after the refinement does, the replacement is built from the subject, the lower bound
  and the upper bound, in that order; both outcomes are tagged \<open>new_raise\<close> and the
  deletion is gone.
\<close>

theorem C2_deletion_short_circuit:
  assumes subject: "onExpression C w0 (subnode_expression (self w0)) = (lookup_source, w1)"
  shows "(willRaiseException C lookup_source BaseException \<longrightarrow>
            StatementDelSlice_computeStatement C w0 =
              ((makeStatementExpressionOnlyReplacementNode C lookup_source (self w1), new_raise,
                Some ''Slice del raises exception in sliced value, removed del''),
               w1))
       \<and> (\<not> willRaiseException C lookup_source BaseException
          \<and> onExpression_allow_none C w1 (getLower (self w1)) = (lower, w2)
          \<and> \<not> is_not_None_and_willRaise C lower
          \<and> onExpression_allow_none C w2 (getUpper (self w2)) = (discarded, w3)
          \<and> getUpper (self w3) = Some upper
          \<and> willRaiseException C upper BaseException \<longrightarrow>
            StatementDelSlice_computeStatement C w0 =
              ((makeStatementOnlyNodesFromExpressions C [Some lookup_source, lower, Some upper],
                new_raise,
                Some (CHR 0x0A #
                  ''Slice del raises exception in upper slice boundary value, removed del'')),
               w3))"
  using subject by (simp add: StatementDelSlice_computeStatement_def)

theorem C2_deletion_short_circuit_witness:
  "StatementDelSlice_computeStatement demo deletion_subject_raises =
     ((OtherNode ''STATEMENT_EXPRESSION_ONLY'' [raise_node 1] 4, Some ''new_raise'',
       Some ''Slice del raises exception in sliced value, removed del''),
      deletion_subject_raises\<lparr>trace_collection := 1\<rparr>)
   \<and> StatementDelSlice_computeStatement demo deletion_upper_raises =
     ((OtherNode ''STATEMENTS_SEQUENCE''
         [OtherNode ''STATEMENT_EXPRESSION_ONLY'' [name_node 1] 1,
          OtherNode ''STATEMENT_EXPRESSION_ONLY'' [name_node 2] 2,
          OtherNode ''STATEMENT_EXPRESSION_ONLY'' [raise_node 3] 3] 0,
       Some ''new_raise'',
       Some (CHR 0x0A #
         ''Slice del raises exception in upper slice boundary value, removed del'')),
      deletion_upper_raises\<lparr>trace_collection := 3\<rparr>)"
proof -
  have s1: "onExpression demo deletion_subject_raises
              (subnode_expression (self deletion_subject_raises)) =
            (raise_node 1, deletion_subject_raises\<lparr>trace_collection := 1\<rparr>)"
    by (simp add: demo_fields deletion_subject_raises_def raise_node_def)
  have s2: "onExpression demo deletion_upper_raises
              (subnode_expression (self deletion_upper_raises)) =
            (name_node 1, deletion_upper_raises\<lparr>trace_collection := 1\<rparr>)"
    by (simp add: demo_fields deletion_upper_raises_def name_node_def)
  have a: "StatementDelSlice_computeStatement demo deletion_subject_raises =
     ((OtherNode ''STATEMENT_EXPRESSION_ONLY'' [raise_node 1] 4, Some ''new_raise'',
       Some ''Slice del raises exception in sliced value, removed del''),
      deletion_subject_raises\<lparr>trace_collection := 1\<rparr>)"
    using C2_deletion_short_circuit [OF s1]
    by (simp add: demo_fields raise_node_def new_raise_def deletion_subject_raises_def)
  have b: "StatementDelSlice_computeStatement demo deletion_upper_raises =
     ((OtherNode ''STATEMENTS_SEQUENCE''
         [OtherNode ''STATEMENT_EXPRESSION_ONLY'' [name_node 1] 1,
          OtherNode ''STATEMENT_EXPRESSION_ONLY'' [name_node 2] 2,
          OtherNode ''STATEMENT_EXPRESSION_ONLY'' [raise_node 3] 3] 0,
       Some ''new_raise'',
       Some (CHR 0x0A #
         ''Slice del raises exception in upper slice boundary value, removed del'')),
      deletion_upper_raises\<lparr>trace_collection := 3\<rparr>)"
    using C2_deletion_short_circuit [OF s2, of "Some (name_node 2)"
        "deletion_upper_raises\<lparr>trace_collection := 2\<rparr>" "Some (raise_node 3)"
        "deletion_upper_raises\<lparr>trace_collection := 3\<rparr>" "raise_node 3"]
    by (simp add: demo_fields raise_node_def name_node_def parentheses_def new_raise_def
        deletion_upper_raises_def onExpression_allow_none_def demo_statement_def)
  from a b show ?thesis by simp
qed

text \<open>
  C10: with the lower slot structurally absent and the upper bound the first child that
  certainly raises, the tuple the replacement is built from has the absent lower slot in
  it, as \<open>None\<close> between the refined children before it and the raising upper bound:
  four entries for the assignment and three for the deletion.
\<close>

theorem C10_absent_lower_kept_as_placeholder:
  "(onExpression C w0 (subnode_source (self w0)) = (source, w1)
    \<and> \<not> willRaiseException C source BaseException
    \<and> onExpression C w1 (subnode_expression (self w1)) = (lookup_source, w2)
    \<and> \<not> willRaiseException C lookup_source BaseException
    \<and> getLower (self w2) = None
    \<and> onExpression_allow_none C w2 (getUpper (self w2)) = (Some upper, w3)
    \<and> willRaiseException C upper BaseException \<longrightarrow>
      fst (fst (StatementAssignmentSlice_computeStatement C w0)) =
        makeStatementOnlyNodesFromExpressions C
          [Some source, Some lookup_source, None, Some upper])
   \<and> (onExpression C v0 (subnode_expression (self v0)) = (subject, v1)
    \<and> \<not> willRaiseException C subject BaseException
    \<and> getLower (self v1) = None
    \<and> onExpression_allow_none C v1 (getUpper (self v1)) = (discarded, v2)
    \<and> getUpper (self v2) = Some upper'
    \<and> willRaiseException C upper' BaseException \<longrightarrow>
      fst (fst (StatementDelSlice_computeStatement C v0)) =
        makeStatementOnlyNodesFromExpressions C [Some subject, None, Some upper'])"
  by (simp add: StatementAssignmentSlice_computeStatement_def
      StatementDelSlice_computeStatement_def)

theorem C10_absent_lower_kept_as_placeholder_witness:
  "fst (fst (StatementAssignmentSlice_computeStatement demo assignment_no_lower)) =
     OtherNode ''STATEMENTS_SEQUENCE''
       [OtherNode ''STATEMENT_EXPRESSION_ONLY'' [name_node 1] 1,
        OtherNode ''STATEMENT_EXPRESSION_ONLY'' [name_node 2] 2,
        OtherNode ''None'' [] 0,
        OtherNode ''STATEMENT_EXPRESSION_ONLY'' [raise_node 4] 4] 0
   \<and> fst (fst (StatementDelSlice_computeStatement demo deletion_no_lower)) =
     OtherNode ''STATEMENTS_SEQUENCE''
       [OtherNode ''STATEMENT_EXPRESSION_ONLY'' [name_node 1] 1,
        OtherNode ''None'' [] 0,
        OtherNode ''STATEMENT_EXPRESSION_ONLY'' [raise_node 3] 3] 0"
  using C10_absent_lower_kept_as_placeholder [of demo assignment_no_lower "name_node 1"
      "assignment_no_lower\<lparr>trace_collection := 1\<rparr>" "name_node 2"
      "assignment_no_lower\<lparr>trace_collection := 2\<rparr>" "raise_node 4"
      "assignment_no_lower\<lparr>trace_collection := 3\<rparr>"
      deletion_no_lower "name_node 1" "deletion_no_lower\<lparr>trace_collection := 1\<rparr>"
      "Some (raise_node 3)" "deletion_no_lower\<lparr>trace_collection := 2\<rparr>" "raise_node 3"]
  by (simp add: demo_fields raise_node_def name_node_def assignment_no_lower_def
      deletion_no_lower_def onExpression_allow_none_def demo_statement_def)

section \<open>The slice lookup\<close>

text \<open>
  C6: the rewrite step of a slice lookup is the subject's slice-lookup hook on the node,
  its current lower and upper children and the world as it is, whatever the node holds.
  Nothing is refined and no exception fact is asked: the step is the same under every
  other refinement, every other exception facts and every other replacement helpers.
\<close>

theorem C6_lookup_delegates:
  "ExpressionSliceLookup_computeExpression C w =
     computeExpressionSlice C (subnode_expression (self w)) (self w) (getLower (self w))
       (getUpper (self w)) w
   \<and> ExpressionSliceLookup_computeExpression
        (C\<lparr>onExpression := refine, willRaiseException := facts,
           makeStatementExpressionOnlyReplacementNode := mk1,
           makeStatementOnlyNodesFromExpressions := mk2\<rparr>) w =
      ExpressionSliceLookup_computeExpression C w"
  by (simp add: ExpressionSliceLookup_computeExpression_def)

lemma recording_hook:
  "computeExpressionSlice recording subject lookup_node lower upper w =
     ((OtherNode ''SLICE_ARGUMENTS'' [demo_argument lower, demo_argument upper] 0, None, None), w)"
  by (simp add: recording_def)

text \<open>
  C7: a slice lookup that has been constructed holds in its lower and upper slot the
  conversion of what was supplied: the slot is absent exactly when the child was absent
  or a literal-none node, it never holds a literal-none node, and converting it again
  changes nothing. The status of a slot is not derived again afterwards: in every world,
  whatever the node holds by then, the rewrite step hands the slots to the hook as they
  are, an absent slot as absent and a literal-none node that a slot has come to hold as
  a present child.
\<close>

theorem C7_slots_normalised_once:
  assumes "ExpressionSliceLookup_init python_version expression lower upper sr = Inr n"
  shows "getLower n = convertNoneConstantToNone lower
       \<and> getUpper n = convertNoneConstantToNone upper
       \<and> (getLower n = None) = (lower = None \<or> (\<exists>sr'. lower = Some (ExpressionConstantNoneRef sr')))
       \<and> (getUpper n = None) = (upper = None \<or> (\<exists>sr'. upper = Some (ExpressionConstantNoneRef sr')))
       \<and> getLower n \<noteq> Some (ExpressionConstantNoneRef sr'')
       \<and> getUpper n \<noteq> Some (ExpressionConstantNoneRef sr'')
       \<and> convertNoneConstantToNone (getLower n) = getLower n
       \<and> convertNoneConstantToNone (getUpper n) = getUpper n
       \<and> ExpressionSliceLookup_computeExpression C \<lparr>trace_collection = t, self = n\<rparr> =
           computeExpressionSlice C expression n (getLower n) (getUpper n)
             \<lparr>trace_collection = t, self = n\<rparr>
       \<and> ExpressionSliceLookup_computeExpression C w =
           computeExpressionSlice C (subnode_expression (self w)) (self w)
             (getLower (self w)) (getUpper (self w)) w
       \<and> ExpressionSliceLookup_computeExpression C
            (w\<lparr>self := ExpressionSliceLookup e (Some (ExpressionConstantNoneRef s)) up sr'\<rparr>) =
           computeExpressionSlice C e
             (ExpressionSliceLookup e (Some (ExpressionConstantNoneRef s)) up sr')
             (Some (ExpressionConstantNoneRef s)) up
             (w\<lparr>self := ExpressionSliceLookup e (Some (ExpressionConstantNoneRef s)) up sr'\<rparr>)"
proof -
  have conv: "\<And>x. (convertNoneConstantToNone x = None) =
                 (x = None \<or> (\<exists>sr'. x = Some (ExpressionConstantNoneRef sr')))"
    "\<And>x sr'. convertNoneConstantToNone x \<noteq> Some (ExpressionConstantNoneRef sr')"
    "\<And>x. convertNoneConstantToNone (convertNoneConstantToNone x) = convertNoneConstantToNone x"
    subgoal for x by (cases x rule: convertNoneConstantToNone.cases) simp_all
    subgoal for x sr' by (cases x rule: convertNoneConstantToNone.cases) simp_all
    subgoal for x by (cases x rule: convertNoneConstantToNone.cases) simp_all
    done
  from assms have n: "n = ExpressionSliceLookup expression (convertNoneConstantToNone lower)
                  (convertNoneConstantToNone upper) sr"
    by (simp add: ExpressionSliceLookup_init_def split: if_splits)
  show ?thesis
    by (simp add: n conv ExpressionSliceLookup_computeExpression_def)
qed

theorem C7_slots_normalised_once_witness:
  "ExpressionSliceLookup_init 270 (name_node 1) (Some (ExpressionConstantNoneRef 2))
     (Some (name_node 3)) 4 = Inr (self lookup_plain)
   \<and> getLower (self lookup_plain) = None
   \<and> ExpressionSliceLookup_computeExpression recording lookup_plain =
       ((OtherNode ''SLICE_ARGUMENTS''
           [OtherNode ''ABSENT'' [] 0, OtherNode ''PRESENT'' [name_node 3] 0] 0, None, None),
        lookup_plain)
   \<and> ExpressionSliceLookup_computeExpression recording lookup_literal_none =
       ((OtherNode ''SLICE_ARGUMENTS''
           [OtherNode ''PRESENT'' [ExpressionConstantNoneRef 2] 0,
            OtherNode ''PRESENT'' [name_node 3] 0] 0, None, None),
        lookup_literal_none)"
proof -
  have h: "ExpressionSliceLookup_init 270 (name_node 1) (Some (ExpressionConstantNoneRef 2))
     (Some (name_node 3)) 4 = Inr (self lookup_plain)"
    by (simp add: ExpressionSliceLookup_init_def name_node_def lookup_plain_def)
  note inst = C7_slots_normalised_once [OF h, of 0 recording 0 lookup_plain "name_node 1" 2
      "Some (name_node 3)" 4]
  from inst have a: "getLower (self lookup_plain) = None"
    by (simp add: name_node_def)
  from inst have b: "ExpressionSliceLookup_computeExpression recording lookup_plain =
       ((OtherNode ''SLICE_ARGUMENTS''
           [OtherNode ''ABSENT'' [] 0, OtherNode ''PRESENT'' [name_node 3] 0] 0, None, None),
        lookup_plain)"
    by (simp add: recording_hook demo_argument_def lookup_plain_def)
  from inst have c: "ExpressionSliceLookup_computeExpression recording
       (lookup_plain\<lparr>self := ExpressionSliceLookup (name_node 1)
        (Some (ExpressionConstantNoneRef 2)) (Some (name_node 3)) 4\<rparr>) =
       ((OtherNode ''SLICE_ARGUMENTS''
           [OtherNode ''PRESENT'' [ExpressionConstantNoneRef 2] 0,
            OtherNode ''PRESENT'' [name_node 3] 0] 0, None, None),
        lookup_plain\<lparr>self := ExpressionSliceLookup (name_node 1)
        (Some (ExpressionConstantNoneRef 2)) (Some (name_node 3)) 4\<rparr>)"
    by (simp add: recording_hook demo_argument_def)
  have eq: "lookup_plain\<lparr>self := ExpressionSliceLookup (name_node 1)
        (Some (ExpressionConstantNoneRef 2)) (Some (name_node 3)) 4\<rparr> = lookup_literal_none"
    by (simp add: lookup_plain_def lookup_literal_none_def)
  from h a b c [unfolded eq] show ?thesis by simp
qed

section \<open>Invoking a rewrite step again\<close>

lemma refine_keeps_present:
  assumes "\<forall>w' c. self w' = N \<and> Some c \<in> set slots \<longrightarrow>
             fst (onExpression C w' c) = c \<and> self (snd (onExpression C w' c)) = N"
    and "self w = N" and "Some c \<in> set slots"
  shows "\<exists>w1. onExpression C w c = (c, w1) \<and> self w1 = N"
proof -
  from assms have "fst (onExpression C w c) = c \<and> self (snd (onExpression C w c)) = N"
    by blast
  then show ?thesis by (cases "onExpression C w c") simp
qed

lemma refine_keeps_optional:
  assumes "\<forall>w' c. self w' = N \<and> Some c \<in> set slots \<longrightarrow>
             fst (onExpression C w' c) = c \<and> self (snd (onExpression C w' c)) = N"
    and "self w = N" and "x \<in> set slots"
  shows "\<exists>w1. onExpression_allow_none C w x = (x, w1) \<and> self w1 = N"
proof (cases x)
  case None
  with assms show ?thesis by simp
next
  case (Some c)
  with refine_keeps_present [OF assms(1,2), of c] assms(3) show ?thesis
    by (auto simp: onExpression_allow_none_def)
qed

lemma none_raises_optional:
  assumes "\<forall>c. Some c \<in> set slots \<longrightarrow> \<not> willRaiseException C c BaseException"
    and "x \<in> set slots"
  shows "\<not> is_not_None_and_willRaise C x"
  using assms by (cases x) auto

lemma step_unchanged:
  assumes step: "rewrite_step_of N = Some step"
    and node: "self w = N"
    and refine: "\<forall>w' c. self w' = N \<and> Some c \<in> set (refined_slots N) \<longrightarrow>
                   fst (onExpression C w' c) = c \<and> self (snd (onExpression C w' c)) = N"
    and no_raise: "\<forall>c. Some c \<in> set (refined_slots N) \<longrightarrow>
                     \<not> willRaiseException C c BaseException"
    and hook: "\<forall>w'. self w' = N \<longrightarrow>
                 (\<exists>w''. delegate C N w' = Some (unchanged N, w'') \<and> self w'' = N)"
  shows "fst (step C w) = unchanged N \<and> self (snd (step C w)) = N"
proof (cases N)
  case (StatementAssignmentSlice v e lo up sr)
  have st: "step = StatementAssignmentSlice_computeStatement"
    using step StatementAssignmentSlice by simp
  have slots: "refined_slots N = [Some v, Some e, lo, up]"
    using StatementAssignmentSlice by simp
  obtain w1 where r1: "onExpression C w v = (v, w1)" "self w1 = N"
    using refine_keeps_present [OF refine node, of v] slots by auto
  obtain w2 where r2: "onExpression C w1 e = (e, w2)" "self w2 = N"
    using refine_keeps_present [OF refine r1(2), of e] slots by auto
  obtain w3 where r3: "onExpression_allow_none C w2 lo = (lo, w3)" "self w3 = N"
    using refine_keeps_optional [OF refine r2(2), of lo] slots by auto
  obtain w4 where r4: "onExpression_allow_none C w3 up = (up, w4)" "self w4 = N"
    using refine_keeps_optional [OF refine r3(2), of up] slots by auto
  have nr: "\<not> willRaiseException C v BaseException" "\<not> willRaiseException C e BaseException"
    "\<not> is_not_None_and_willRaise C lo" "\<not> is_not_None_and_willRaise C up"
    using no_raise none_raises_optional [OF no_raise] slots by auto
  from hook r4(2) obtain w5 where
    h: "delegate C N w4 = Some (unchanged N, w5)" "self w5 = N" by blast
  from h(1) have h': "computeExpressionSetSlice C e N lo up v w4 = (unchanged N, w5)"
    using StatementAssignmentSlice by simp
  show ?thesis
    using r1 r2 r3 r4 nr h' h(2) node StatementAssignmentSlice
    by (simp add: st StatementAssignmentSlice_computeStatement_def)
next
  case (StatementDelSlice e lo up sr)
  have st: "step = StatementDelSlice_computeStatement"
    using step StatementDelSlice by simp
  have slots: "refined_slots N = [Some e, lo, up]"
    using StatementDelSlice by simp
  obtain w1 where r1: "onExpression C w e = (e, w1)" "self w1 = N"
    using refine_keeps_present [OF refine node, of e] slots by auto
  obtain w2 where r2: "onExpression_allow_none C w1 lo = (lo, w2)" "self w2 = N"
    using refine_keeps_optional [OF refine r1(2), of lo] slots by auto
  obtain w3 where r3: "onExpression_allow_none C w2 up = (up, w3)" "self w3 = N"
    using refine_keeps_optional [OF refine r2(2), of up] slots by auto
  have nr: "\<not> willRaiseException C e BaseException"
    "\<not> is_not_None_and_willRaise C lo" "\<not> is_not_None_and_willRaise C up"
    using no_raise none_raises_optional [OF no_raise] slots by auto
  from hook r3(2) obtain w4 where
    h: "delegate C N w3 = Some (unchanged N, w4)" "self w4 = N" by blast
  from h(1) have h': "computeExpressionDelSlice C e N lo up w3 = (unchanged N, w4)"
    using StatementDelSlice by simp
  show ?thesis
    using r1 r2 r3 nr h' h(2) node StatementDelSlice
    by (simp add: st StatementDelSlice_computeStatement_def)
next
  case (ExpressionSliceLookup e lo up sr)
  with step hook node show ?thesis
    by (auto simp: ExpressionSliceLookup_computeExpression_def)
next
  case (ExpressionBuiltinSlice2 a b sr)
  with step hook node show ?thesis
    by (auto simp: ExpressionBuiltinSlice2_computeExpression_def)
next
  case (ExpressionBuiltinSlice3 a b c sr)
  with step hook node show ?thesis
    by (auto simp: ExpressionBuiltinSlice3_computeExpression_def)
next
  case (ExpressionConstantNoneRef sr)
  with step show ?thesis by simp
next
  case (OtherNode k cs sr)
  with step show ?thesis by simp
qed

lemma step_new_raise:
  assumes step: "rewrite_step_of N = Some step"
    and node: "self w = N"
    and refine: "\<forall>w' c. self w' = N \<and> Some c \<in> set (refined_slots N) \<longrightarrow>
                   fst (onExpression C w' c) = c \<and> self (snd (onExpression C w' c)) = N"
    and raises: "\<exists>c. Some c \<in> set (refined_slots N) \<and> willRaiseException C c BaseException"
  shows "fst (snd (fst (step C w))) = new_raise \<and> self (snd (step C w)) = N"
proof (cases N)
  case (StatementAssignmentSlice v e lo up sr)
  have st: "step = StatementAssignmentSlice_computeStatement"
    using step StatementAssignmentSlice by simp
  have slots: "refined_slots N = [Some v, Some e, lo, up]"
    using StatementAssignmentSlice by simp
  obtain w1 where r1: "onExpression C w v = (v, w1)" "self w1 = N"
    using refine_keeps_present [OF refine node, of v] slots by auto
  obtain w2 where r2: "onExpression C w1 e = (e, w2)" "self w2 = N"
    using refine_keeps_present [OF refine r1(2), of e] slots by auto
  obtain w3 where r3: "onExpression_allow_none C w2 lo = (lo, w3)" "self w3 = N"
    using refine_keeps_optional [OF refine r2(2), of lo] slots by auto
  obtain w4 where r4: "onExpression_allow_none C w3 up = (up, w4)" "self w4 = N"
    using refine_keeps_optional [OF refine r3(2), of up] slots by auto
  from raises slots have some: "willRaiseException C v BaseException
      \<or> willRaiseException C e BaseException
      \<or> is_not_None_and_willRaise C lo \<or> is_not_None_and_willRaise C up"
    by auto
  show ?thesis
    using r1 r2 r3 r4 some node StatementAssignmentSlice
    by (auto simp: st StatementAssignmentSlice_computeStatement_def)
next
  case (StatementDelSlice e lo up sr)
  have st: "step = StatementDelSlice_computeStatement"
    using step StatementDelSlice by simp
  have slots: "refined_slots N = [Some e, lo, up]"
    using StatementDelSlice by simp
  obtain w1 where r1: "onExpression C w e = (e, w1)" "self w1 = N"
    using refine_keeps_present [OF refine node, of e] slots by auto
  obtain w2 where r2: "onExpression_allow_none C w1 lo = (lo, w2)" "self w2 = N"
    using refine_keeps_optional [OF refine r1(2), of lo] slots by auto
  obtain w3 where r3: "onExpression_allow_none C w2 up = (up, w3)" "self w3 = N"
    using refine_keeps_optional [OF refine r2(2), of up] slots by auto
  from raises slots have some: "willRaiseException C e BaseException
      \<or> is_not_None_and_willRaise C lo \<or> is_not_None_and_willRaise C up"
    by auto
  show ?thesis
    using r1 r2 r3 some node StatementDelSlice
    by (auto simp: st StatementDelSlice_computeStatement_def)
next
  case (ExpressionSliceLookup e lo up sr)
  with raises show ?thesis by simp
next
  case (ExpressionBuiltinSlice2 a b sr)
  with raises show ?thesis by simp
next
  case (ExpressionBuiltinSlice3 a b c sr)
  with raises show ?thesis by simp
next
  case (ExpressionConstantNoneRef sr)
  with step show ?thesis by simp
next
  case (OtherNode k cs sr)
  with step show ?thesis by simp
qed

lemma step_is_delegate:
  assumes step: "rewrite_step_of N = Some step"
    and node: "self w = N"
    and none: "refined_slots N = []"
  shows "delegate C N w = Some (step C w)"
  using assms
  by (cases N)
     (simp_all add: ExpressionSliceLookup_computeExpression_def
        ExpressionBuiltinSlice2_computeExpression_def
        ExpressionBuiltinSlice3_computeExpression_def)

lemma allow_none_preserves:
  assumes "\<forall>w' c. P w' \<longrightarrow> P (snd (onExpression C w' c))" and "P w"
  shows "P (snd (onExpression_allow_none C w x))"
proof (cases x)
  case None
  with assms show ?thesis by simp
next
  case (Some c)
  from assms have "P (snd (onExpression C w c))" by blast
  with Some show ?thesis
    by (cases "onExpression C w c") (simp add: onExpression_allow_none_def)
qed

lemma step_preserves:
  assumes step: "rewrite_step_of N = Some step"
    and p_refine: "\<forall>w' c. P w' \<longrightarrow> P (snd (onExpression C w' c))"
    and p_set: "\<forall>w' s m lo up v. P w' \<longrightarrow> P (snd (computeExpressionSetSlice C s m lo up v w'))"
    and p_del: "\<forall>w' s m lo up. P w' \<longrightarrow> P (snd (computeExpressionDelSlice C s m lo up w'))"
    and p_slice: "\<forall>w' s m lo up. P w' \<longrightarrow> P (snd (computeExpressionSlice C s m lo up w'))"
    and p_spec: "\<forall>w' m vs. P w' \<longrightarrow> P (snd (computeBuiltinSpec C m vs w'))"
    and P: "P w"
  shows "P (snd (step C w))"
proof (cases N)
  case (StatementAssignmentSlice v e lo up sr)
  have st: "step = StatementAssignmentSlice_computeStatement"
    using step StatementAssignmentSlice by simp
  obtain s1 w1 where r1: "onExpression C w (subnode_source (self w)) = (s1, w1)" by fastforce
  obtain s2 w2 where r2: "onExpression C w1 (subnode_expression (self w1)) = (s2, w2)"
    by fastforce
  obtain s3 w3 where r3: "onExpression_allow_none C w2 (getLower (self w2)) = (s3, w3)"
    by fastforce
  obtain s4 w4 where r4: "onExpression_allow_none C w3 (getUpper (self w3)) = (s4, w4)"
    by fastforce
  from p_refine P r1 have P1: "P w1" by (metis snd_conv)
  from p_refine P1 r2 have P2: "P w2" by (metis snd_conv)
  from allow_none_preserves [OF p_refine P2] r3 have P3: "P w3" by (metis snd_conv)
  from allow_none_preserves [OF p_refine P3] r4 have P4: "P w4" by (metis snd_conv)
  from p_set P4 have "P (snd (computeExpressionSetSlice C s2 (self w4) s3 s4 s1 w4))" by blast
  with P1 P2 P3 P4 r1 r2 r3 r4 show ?thesis
    by (simp add: st StatementAssignmentSlice_computeStatement_def)
next
  case (StatementDelSlice e lo up sr)
  have st: "step = StatementDelSlice_computeStatement"
    using step StatementDelSlice by simp
  obtain s1 w1 where r1: "onExpression C w (subnode_expression (self w)) = (s1, w1)"
    by fastforce
  obtain s2 w2 where r2: "onExpression_allow_none C w1 (getLower (self w1)) = (s2, w2)"
    by fastforce
  obtain s3 w3 where r3: "onExpression_allow_none C w2 (getUpper (self w2)) = (s3, w3)"
    by fastforce
  from p_refine P r1 have P1: "P w1" by (metis snd_conv)
  from allow_none_preserves [OF p_refine P1] r2 have P2: "P w2" by (metis snd_conv)
  from allow_none_preserves [OF p_refine P2] r3 have P3: "P w3" by (metis snd_conv)
  from p_del P3
  have "P (snd (computeExpressionDelSlice C s1 (self w3) s2 (getUpper (self w3)) w3))"
    by blast
  with P1 P2 P3 r1 r2 r3 show ?thesis
    by (simp add: st StatementDelSlice_computeStatement_def Let_def)
next
  case (ExpressionSliceLookup e lo up sr)
  with step p_slice P show ?thesis
    by (simp add: ExpressionSliceLookup_computeExpression_def)
next
  case (ExpressionBuiltinSlice2 a b sr)
  with step p_spec P show ?thesis
    by (simp add: ExpressionBuiltinSlice2_computeExpression_def)
next
  case (ExpressionBuiltinSlice3 a b c sr)
  with step p_spec P show ?thesis
    by (simp add: ExpressionBuiltinSlice3_computeExpression_def)
next
  case (ExpressionConstantNoneRef sr)
  with step show ?thesis by simp
next
  case (OtherNode k cs sr)
  with step show ?thesis by simp
qed

lemma invoke_times_invariant:
  assumes "\<And>w'. I w' \<Longrightarrow> Q (fst (f w')) \<and> I (snd (f w'))" and "I w"
  shows "list_all Q (fst (invoke_times f n w)) \<and> I (snd (invoke_times f n w))
         \<and> length (fst (invoke_times f n w)) = n"
  using assms(2)
proof (induction n arbitrary: w)
  case 0
  then show ?case by simp
next
  case (Suc n)
  obtain r w1 where sw: "f w = (r, w1)" by fastforce
  obtain rs w2 where iw: "invoke_times f n w1 = (rs, w2)" by fastforce
  from assms(1) [OF Suc.prems] sw have "Q r" "I w1" by simp_all
  with Suc.IH [of w1] iw sw show ?case by simp
qed

lemma all_equal_replicate:
  "list_all (\<lambda>r. g r = a) xs \<Longrightarrow> map g xs = replicate (length xs) a"
  by (induction xs) simp_all

lemma quiet_fields:
  "onExpression quiet w n = (n, w)"
  "willRaiseException quiet = demo_willRaise"
  "makeStatementExpressionOnlyReplacementNode quiet expression n' =
     OtherNode ''STATEMENT_EXPRESSION_ONLY'' [expression] (source_ref n')"
  "computeExpressionSetSlice quiet subject set_node lower upper value_node w =
     ((set_node, None, None), w)"
  "computeExpressionDelSlice quiet subject set_node lower upper w = ((set_node, None, None), w)"
  "computeExpressionSlice quiet subject set_node lower upper w = ((set_node, None, None), w)"
  "computeBuiltinSpec quiet n given_values w = ((n, None, None), w)"
  by (simp_all add: quiet_def demo_def)

text \<open>
  C8, as amended. For a slice assignment or deletion whose children the trace collection
  returns as they are and leaves in the node: when none of the children certainly raises
  and the subject's hook answers "unchanged" and leaves the node as it is, every one of
  any number of invocations in a row yields "unchanged"; when one of the children
  certainly raises, every one of them yields \<open>new_raise\<close>; the node is afterwards what it
  was. For a slice lookup and the two constructions, which refine nothing, the step is
  the call of the subject's hook, or of the spec matcher, on the current children and
  nothing else. A call changes the world only through the refinements, hook calls and
  spec-matcher calls it makes: a property of the world that every one of these preserves
  holds after any number of invocations.
\<close>

theorem C8_repeated_invocation:
  assumes step: "rewrite_step_of N = Some step"
    and node: "self w = N"
  shows
    "((\<forall>w' c. self w' = N \<and> Some c \<in> set (refined_slots N) \<longrightarrow>
          fst (onExpression C w' c) = c \<and> self (snd (onExpression C w' c)) = N)
      \<and> (\<forall>c. Some c \<in> set (refined_slots N) \<longrightarrow> \<not> willRaiseException C c BaseException)
      \<and> (\<forall>w'. self w' = N \<longrightarrow>
            (\<exists>w''. delegate C N w' = Some (unchanged N, w'') \<and> self w'' = N))
      \<and> refined_slots N \<noteq> [] \<longrightarrow>
        fst (invoke_times (step C) n w) = replicate n (unchanged N)
        \<and> self (snd (invoke_times (step C) n w)) = N)
   \<and> ((\<forall>w' c. self w' = N \<and> Some c \<in> set (refined_slots N) \<longrightarrow>
          fst (onExpression C w' c) = c \<and> self (snd (onExpression C w' c)) = N)
      \<and> (\<exists>c. Some c \<in> set (refined_slots N) \<and> willRaiseException C c BaseException) \<longrightarrow>
        map (\<lambda>r. fst (snd r)) (fst (invoke_times (step C) n w)) = replicate n new_raise
        \<and> self (snd (invoke_times (step C) n w)) = N)
   \<and> (refined_slots N = [] \<longrightarrow> delegate C N w = Some (step C w))
   \<and> ((\<forall>w' c. P w' \<longrightarrow> P (snd (onExpression C w' c)))
      \<and> (\<forall>w' s m lo up v. P w' \<longrightarrow> P (snd (computeExpressionSetSlice C s m lo up v w')))
      \<and> (\<forall>w' s m lo up. P w' \<longrightarrow> P (snd (computeExpressionDelSlice C s m lo up w')))
      \<and> (\<forall>w' s m lo up. P w' \<longrightarrow> P (snd (computeExpressionSlice C s m lo up w')))
      \<and> (\<forall>w' m vs. P w' \<longrightarrow> P (snd (computeBuiltinSpec C m vs w')))
      \<and> P w \<longrightarrow>
        P (snd (invoke_times (step C) n w)))"
proof (intro conjI impI)
  assume h: "(\<forall>w' c. self w' = N \<and> Some c \<in> set (refined_slots N) \<longrightarrow>
          fst (onExpression C w' c) = c \<and> self (snd (onExpression C w' c)) = N)
      \<and> (\<forall>c. Some c \<in> set (refined_slots N) \<longrightarrow> \<not> willRaiseException C c BaseException)
      \<and> (\<forall>w'. self w' = N \<longrightarrow>
            (\<exists>w''. delegate C N w' = Some (unchanged N, w'') \<and> self w'' = N))
      \<and> refined_slots N \<noteq> []"
  then have one: "\<And>w'. self w' = N \<Longrightarrow>
      fst (step C w') = unchanged N \<and> self (snd (step C w')) = N"
    using step_unchanged [OF step] by blast
  from invoke_times_invariant [of "\<lambda>w'. self w' = N" "\<lambda>r. r = unchanged N" "step C", OF one node]
  have "list_all (\<lambda>r. r = unchanged N) (fst (invoke_times (step C) n w))"
    "self (snd (invoke_times (step C) n w)) = N"
    "length (fst (invoke_times (step C) n w)) = n" by simp_all
  moreover from this(1) have "map (\<lambda>r. r) (fst (invoke_times (step C) n w)) =
      replicate (length (fst (invoke_times (step C) n w))) (unchanged N)"
    by (rule all_equal_replicate)
  ultimately show "fst (invoke_times (step C) n w) = replicate n (unchanged N)"
    "self (snd (invoke_times (step C) n w)) = N" by simp_all
next
  assume h: "(\<forall>w' c. self w' = N \<and> Some c \<in> set (refined_slots N) \<longrightarrow>
          fst (onExpression C w' c) = c \<and> self (snd (onExpression C w' c)) = N)
      \<and> (\<exists>c. Some c \<in> set (refined_slots N) \<and> willRaiseException C c BaseException)"
  then have one: "\<And>w'. self w' = N \<Longrightarrow>
      fst (snd (fst (step C w'))) = new_raise \<and> self (snd (step C w')) = N"
    using step_new_raise [OF step] by blast
  from invoke_times_invariant [of "\<lambda>w'. self w' = N" "\<lambda>r. fst (snd r) = new_raise" "step C",
      OF one node]
  have "list_all (\<lambda>r. fst (snd r) = new_raise) (fst (invoke_times (step C) n w))"
    "self (snd (invoke_times (step C) n w)) = N"
    "length (fst (invoke_times (step C) n w)) = n" by simp_all
  moreover from this(1) have "map (\<lambda>r. fst (snd r)) (fst (invoke_times (step C) n w)) =
      replicate (length (fst (invoke_times (step C) n w))) new_raise"
    by (rule all_equal_replicate)
  ultimately show
    "map (\<lambda>r. fst (snd r)) (fst (invoke_times (step C) n w)) = replicate n new_raise"
    "self (snd (invoke_times (step C) n w)) = N" by simp_all
next
  assume "refined_slots N = []"
  with step node show "delegate C N w = Some (step C w)" by (rule step_is_delegate)
next
  assume h: "(\<forall>w' c. P w' \<longrightarrow> P (snd (onExpression C w' c)))
      \<and> (\<forall>w' s m lo up v. P w' \<longrightarrow> P (snd (computeExpressionSetSlice C s m lo up v w')))
      \<and> (\<forall>w' s m lo up. P w' \<longrightarrow> P (snd (computeExpressionDelSlice C s m lo up w')))
      \<and> (\<forall>w' s m lo up. P w' \<longrightarrow> P (snd (computeExpressionSlice C s m lo up w')))
      \<and> (\<forall>w' m vs. P w' \<longrightarrow> P (snd (computeBuiltinSpec C m vs w')))
      \<and> P w"
  then have p: "\<forall>w' c. P w' \<longrightarrow> P (snd (onExpression C w' c))"
    "\<forall>w' s m lo up v. P w' \<longrightarrow> P (snd (computeExpressionSetSlice C s m lo up v w'))"
    "\<forall>w' s m lo up. P w' \<longrightarrow> P (snd (computeExpressionDelSlice C s m lo up w'))"
    "\<forall>w' s m lo up. P w' \<longrightarrow> P (snd (computeExpressionSlice C s m lo up w'))"
    "\<forall>w' m vs. P w' \<longrightarrow> P (snd (computeBuiltinSpec C m vs w'))"
    and start: "P w"
    by simp_all
  have one: "\<And>w'. P w' \<Longrightarrow> True \<and> P (snd (step C w'))"
    using step_preserves [OF step p] by simp
  from invoke_times_invariant [of P "\<lambda>r. True" "step C", OF one start]
  show "P (snd (invoke_times (step C) n w))" by simp
qed

theorem C8_repeated_invocation_witness:
  "fst (invoke_times (StatementAssignmentSlice_computeStatement demo) 3 assignment_plain) =
     [unchanged (self assignment_plain), unchanged (self assignment_plain),
      unchanged (self assignment_plain)]
   \<and> self (snd (invoke_times (StatementAssignmentSlice_computeStatement demo) 3
                 assignment_plain)) = self assignment_plain
   \<and> map (\<lambda>r. fst (snd r))
         (fst (invoke_times (StatementAssignmentSlice_computeStatement demo) 2
                 assignment_value_raises)) = [Some ''new_raise'', Some ''new_raise'']
   \<and> ExpressionSliceLookup_computeExpression demo lookup_plain =
       (unchanged (self lookup_plain), lookup_plain)
   \<and> snd (invoke_times (StatementAssignmentSlice_computeStatement quiet) 3 assignment_plain) =
       assignment_plain"
proof -
  let ?N = "self assignment_plain"
  have N: "?N = StatementAssignmentSlice (name_node 1) (name_node 2) (Some (name_node 3)) None 5"
    by (simp add: assignment_plain_def)
  have step: "rewrite_step_of ?N = Some StatementAssignmentSlice_computeStatement"
    by (simp add: N)
  have refine: "\<forall>w' c. self w' = ?N \<and> Some c \<in> set (refined_slots ?N) \<longrightarrow>
      fst (onExpression demo w' c) = c \<and> self (snd (onExpression demo w' c)) = ?N"
    by (auto simp: N demo_fields name_node_def)
  have no_raise: "\<forall>c. Some c \<in> set (refined_slots ?N) \<longrightarrow>
      \<not> willRaiseException demo c BaseException"
    by (auto simp: N demo_fields name_node_def)
  have hook: "\<forall>w'. self w' = ?N \<longrightarrow>
      (\<exists>w''. delegate demo ?N w' = Some (unchanged ?N, w'') \<and> self w'' = ?N)"
    by (simp add: N demo_fields unchanged_def)
  have slots: "refined_slots ?N \<noteq> []" by (simp add: N)
  from C8_repeated_invocation [OF step refl, of demo 3] refine no_raise hook slots
  have a: "fst (invoke_times (StatementAssignmentSlice_computeStatement demo) 3
                  assignment_plain) = replicate 3 (unchanged ?N)
      \<and> self (snd (invoke_times (StatementAssignmentSlice_computeStatement demo) 3
                 assignment_plain)) = ?N"
    by blast
  let ?R = "self assignment_value_raises"
  have R: "?R = StatementAssignmentSlice (raise_node 1) (name_node 2) (Some (name_node 3))
                  None 5"
    by (simp add: assignment_value_raises_def)
  have stepR: "rewrite_step_of ?R = Some StatementAssignmentSlice_computeStatement"
    by (simp add: R)
  have refineR: "\<forall>w' c. self w' = ?R \<and> Some c \<in> set (refined_slots ?R) \<longrightarrow>
      fst (onExpression demo w' c) = c \<and> self (snd (onExpression demo w' c)) = ?R"
    by (auto simp: R demo_fields name_node_def raise_node_def)
  have raisesR: "\<exists>c. Some c \<in> set (refined_slots ?R) \<and> willRaiseException demo c BaseException"
    by (auto simp: R demo_fields raise_node_def)
  from C8_repeated_invocation [OF stepR refl, of demo 2] refineR raisesR
  have b: "map (\<lambda>r. fst (snd r))
         (fst (invoke_times (StatementAssignmentSlice_computeStatement demo) 2
                 assignment_value_raises)) = replicate 2 new_raise"
    by blast
  let ?L = "self lookup_plain"
  have L: "?L = ExpressionSliceLookup (name_node 1) None (Some (name_node 3)) 4"
    by (simp add: lookup_plain_def)
  have stepL: "rewrite_step_of ?L = Some ExpressionSliceLookup_computeExpression"
    by (simp add: L)
  have slotsL: "refined_slots ?L = []" by (simp add: L)
  from C8_repeated_invocation [OF stepL refl, of demo] slotsL
  have "delegate demo ?L lookup_plain =
          Some (ExpressionSliceLookup_computeExpression demo lookup_plain)"
    by blast
  then have c: "ExpressionSliceLookup_computeExpression demo lookup_plain =
       (unchanged ?L, lookup_plain)"
    by (simp add: L demo_fields unchanged_def)
  have pres: "\<forall>w' c. w' = assignment_plain \<longrightarrow> snd (onExpression quiet w' c) = assignment_plain"
    "\<forall>w' s m lo up v. w' = assignment_plain \<longrightarrow>
        snd (computeExpressionSetSlice quiet s m lo up v w') = assignment_plain"
    "\<forall>w' s m lo up. w' = assignment_plain \<longrightarrow>
        snd (computeExpressionDelSlice quiet s m lo up w') = assignment_plain"
    "\<forall>w' s m lo up. w' = assignment_plain \<longrightarrow>
        snd (computeExpressionSlice quiet s m lo up w') = assignment_plain"
    "\<forall>w' m vs. w' = assignment_plain \<longrightarrow>
        snd (computeBuiltinSpec quiet m vs w') = assignment_plain"
    by (simp_all add: quiet_fields)
  from C8_repeated_invocation [OF step refl, of quiet 3 "\<lambda>w'. w' = assignment_plain"] pres
  have d: "snd (invoke_times (StatementAssignmentSlice_computeStatement quiet) 3
                  assignment_plain) = assignment_plain"
    by blast
  from a b c d show ?thesis
    by (simp add: numeral_3_eq_3 numeral_2_eq_2 new_raise_def)
qed

text \<open>
  C8, as stated, fails twice. \<^verbatim>\<open>x[a:] = (raise)\<close> under a trace collection that
  changes nothing yields \<open>new_raise\<close> and a replacement on the first and on the second
  invocation, not "unchanged", while the node and its children stay what they were. And
  a call on \<^verbatim>\<open>x[a:] = v\<close> that yields "unchanged" has left its trace behind it: the
  trace collection that counts its refinements has counted three.
\<close>

theorem C8_not_unchanged_and_not_without_effect:
  "invoke_times (StatementAssignmentSlice_computeStatement quiet) 2 assignment_value_raises =
     ([(OtherNode ''STATEMENT_EXPRESSION_ONLY'' [raise_node 1] 5, Some ''new_raise'',
        Some ''Slice assignment raises exception in assigned value, removed assignment.''),
       (OtherNode ''STATEMENT_EXPRESSION_ONLY'' [raise_node 1] 5, Some ''new_raise'',
        Some ''Slice assignment raises exception in assigned value, removed assignment.'')],
      assignment_value_raises)
   \<and> (OtherNode ''STATEMENT_EXPRESSION_ONLY'' [raise_node 1] 5, Some ''new_raise'',
        Some ''Slice assignment raises exception in assigned value, removed assignment.'')
      \<noteq> unchanged (self assignment_value_raises)
   \<and> rewrite_step_of (self assignment_value_raises) =
       Some (StatementAssignmentSlice_computeStatement ::
               nat collab \<Rightarrow> nat world \<Rightarrow> outcome \<times> nat world)
   \<and> StatementAssignmentSlice_computeStatement demo assignment_plain =
       (unchanged (self assignment_plain), assignment_plain\<lparr>trace_collection := 3\<rparr>)
   \<and> assignment_plain\<lparr>trace_collection := 3\<rparr> \<noteq> assignment_plain"
proof -
  have one: "StatementAssignmentSlice_computeStatement quiet assignment_value_raises =
     ((OtherNode ''STATEMENT_EXPRESSION_ONLY'' [raise_node 1] 5, Some ''new_raise'',
        Some ''Slice assignment raises exception in assigned value, removed assignment.''),
      assignment_value_raises)"
    by (simp add: StatementAssignmentSlice_computeStatement_def quiet_fields
        assignment_value_raises_def raise_node_def new_raise_def)
  have two: "StatementAssignmentSlice_computeStatement demo assignment_plain =
       (unchanged (self assignment_plain), assignment_plain\<lparr>trace_collection := 3\<rparr>)"
    by (simp add: StatementAssignmentSlice_computeStatement_def demo_fields
        assignment_plain_def name_node_def onExpression_allow_none_def unchanged_def)
  have three: "assignment_plain\<lparr>trace_collection := 3\<rparr> \<noteq> assignment_plain"
    by (simp add: assignment_plain_def)
  have four: "(OtherNode ''STATEMENT_EXPRESSION_ONLY'' [raise_node 1] 5, Some ''new_raise'',
        Some ''Slice assignment raises exception in assigned value, removed assignment.'')
      \<noteq> unchanged (self assignment_value_raises)"
    by (simp add: unchanged_def)
  have five: "rewrite_step_of (self assignment_value_raises) =
       Some (StatementAssignmentSlice_computeStatement ::
               nat collab \<Rightarrow> nat world \<Rightarrow> outcome \<times> nat world)"
    by (simp add: assignment_value_raises_def)
  from one have "invoke_times (StatementAssignmentSlice_computeStatement quiet) 2
      assignment_value_raises =
     ([(OtherNode ''STATEMENT_EXPRESSION_ONLY'' [raise_node 1] 5, Some ''new_raise'',
        Some ''Slice assignment raises exception in assigned value, removed assignment.''),
       (OtherNode ''STATEMENT_EXPRESSION_ONLY'' [raise_node 1] 5, Some ''new_raise'',
        Some ''Slice assignment raises exception in assigned value, removed assignment.'')],
      assignment_value_raises)"
    by (simp add: numeral_2_eq_2)
  with two three four five show ?thesis by blast
qed

end
